theory Spec2Isabelle
  imports Main "HOL-Library.AList"
begin

section \<open>Values and errors\<close>

text \<open>
  Untyped JavaScript values (the TypeScript type \<open>any\<close>): the owner reference handed to
  \<open>fromCRD\<close>, the filter of a reference and the data fetched from the cluster.
  An object is an association list from property names to values, read with the first
  binding of a name; numbers are integers (floating point and \<open>NaN\<close> are left out).
\<close>

datatype jsval =
    JUndefined
  | JNull
  | JBool bool
  | JNum int
  | JStr string
  | JArr "jsval list"
  | JObj "(string \<times> jsval) list"

text \<open>
  What the code can throw: the \<open>Error\<close> raised by the \<open>ResourceRef\<close> constructor (with its
  message), a \<open>TypeError\<close> of the runtime for a property read on \<open>undefined\<close> or \<open>null\<close>, and
  a failure raised inside a function of the \<open>Kube\<close> module or a rejected promise of a
  callback (with whatever it carries).
\<close>

datatype error =
    Error string
  | TypeError
  | Failure string

section \<open>The Kube module\<close>

text \<open>
  \<open>./Kube\<close> is imported by the source of \<open>ResourceRef\<close> and is not part of the files at
  hand, so its functions are parameters of the model. The two lookups by kind and the
  fetch may fail; the two URL builders are functions of their four arguments. The fetch
  yields a resource as the cluster serves it: an object, given by its properties.
\<close>

record Kube =
  resourceAPIVersion :: "string \<Rightarrow> error + string"
  resourcePlural :: "string \<Rightarrow> error + string"
  Kube_getResourceURL :: "string \<Rightarrow> string \<Rightarrow> string \<Rightarrow> string \<Rightarrow> string"
  Kube_watchResourceURL :: "string \<Rightarrow> string \<Rightarrow> string \<Rightarrow> string \<Rightarrow> string"
  Kube_getResource :: "string \<Rightarrow> string \<Rightarrow> string \<Rightarrow> string \<Rightarrow> error + (string \<times> jsval) list"

section \<open>Resources and references\<close>

text \<open>The fields of \<open>IResource\<close> and of \<open>IClusterServiceVersionCRDResource\<close> that the code reads.\<close>

record IResourceMetadata =
  md_name :: string
  md_namespace :: "string option"

record IResource =
  res_apiVersion :: string
  res_kind :: string
  res_metadata :: IResourceMetadata

record IClusterServiceVersionCRDResource =
  crdres_kind :: string
  crdres_name :: string

record ResourceRef =
  apiVersion :: string
  kind :: string
  name :: string
  namespace :: string
  filter_ref :: jsval

text \<open>
  \<open>a || b\<close> on optional strings: the left operand when it is truthy (present and not
  the empty string), the right operand otherwise.
\<close>

fun str_or :: "string option \<Rightarrow> string option \<Rightarrow> string option" where
  "str_or None b = b"
| "str_or (Some a) b = (if a = [] then b else Some a)"

text \<open>
  The constructor \<open>new ResourceRef(r, defaultNamespace, defaultFilter)\<close>. An argument that
  is left out is \<open>None\<close> for the namespace and \<open>JUndefined\<close> for the filter.
\<close>

definition ResourceRef_new :: "IResource \<Rightarrow> string option \<Rightarrow> jsval \<Rightarrow> error + ResourceRef" where
  "ResourceRef_new r defaultNamespace defaultFilter =
     (let this_name = md_name (res_metadata r);
          namespace' = str_or (md_namespace (res_metadata r)) defaultNamespace
      in case namespace' of
           None \<Rightarrow> Inl (Error (''Namespace missing for resource '' @ this_name @
                               '', define a default namespace''))
         | Some ns \<Rightarrow>
             if ns = [] then Inl (Error (''Namespace missing for resource '' @ this_name @
                                         '', define a default namespace''))
             else Inr \<lparr> apiVersion = res_apiVersion r, kind = res_kind r, name = this_name,
                        namespace = ns, filter_ref = defaultFilter \<rparr>)"

definition fromCRD ::
  "Kube \<Rightarrow> IClusterServiceVersionCRDResource \<Rightarrow> string \<Rightarrow> jsval \<Rightarrow> error + ResourceRef" where
  "fromCRD K r namespace' ownerReference =
     (case resourceAPIVersion K (crdres_kind r) of
        Inl e \<Rightarrow> Inl e
      | Inr v \<Rightarrow>
          ResourceRef_new
            \<lparr> res_apiVersion = v, res_kind = crdres_kind r,
              res_metadata = \<lparr> md_name = crdres_name r, md_namespace = None \<rparr> \<rparr>
            (Some namespace')
            (JObj [(''metadata'', JObj [(''ownerReferences'', JArr [ownerReference])])]))"

section \<open>The lodash functions used by getResource\<close>

text \<open>
  \<open>filter\<close> and \<open>matches\<close> come from the lodash library, a dependency that is not part
  of the source files. They are modelled on the values above from the library's
  documented behaviour (\<open>matches\<close> "performs a partial deep
  comparison between a given object and source"; "partial comparisons will match empty
  array and empty object source values against any array or object value, respectively"),
  following its implementation: \<open>matches(source)\<close> compares every own property of the
  source with the property of the same name of the object; arrays below the top level are
  compared without regard to order, every element of the source array claiming the first
  unclaimed element of the object's array that it matches. Properties inherited from
  prototypes are left out.
\<close>

text \<open>The decimal name of an array index.\<close>

fun dec :: "nat \<Rightarrow> string" where
  "dec n = (if n < 10 then [char_of (48 + n)] else dec (n div 10) @ [char_of (48 + n mod 10)])"

declare dec.simps [simp del]

text \<open>
  The own enumerable properties of a value, in enumeration order (\<open>keys\<close> of lodash), and
  the properties that a read \<open>v[k]\<close> finds (these and \<open>length\<close> for arrays and strings).
\<close>

fun own_props :: "jsval \<Rightarrow> (string \<times> jsval) list" where
  "own_props (JObj kvs) = kvs"
| "own_props (JArr xs) = zip (map dec [0..<length xs]) xs"
| "own_props (JStr s) = zip (map dec [0..<length s]) (map (\<lambda>c. JStr [c]) s)"
| "own_props _ = []"

fun all_props :: "jsval \<Rightarrow> (string \<times> jsval) list" where
  "all_props (JArr xs) = own_props (JArr xs) @ [(''length'', JNum (int (length xs)))]"
| "all_props (JStr s) = own_props (JStr s) @ [(''length'', JNum (int (length s)))]"
| "all_props v = own_props v"

text \<open>
  \<open>baseIsEqual(value, other, COMPARE_PARTIAL_FLAG | COMPARE_UNORDERED_FLAG)\<close> with
  \<open>equalArrays\<close> and \<open>equalObjects\<close>; the first argument is the value of the source.
\<close>

fun baseIsEqual :: "jsval \<Rightarrow> jsval \<Rightarrow> bool"
  and equalArrays :: "jsval list \<Rightarrow> jsval list \<Rightarrow> bool"
  and arraySome :: "jsval \<Rightarrow> jsval list \<Rightarrow> jsval list option"
  and equalObjects :: "(string \<times> jsval) list \<Rightarrow> (string \<times> jsval) list \<Rightarrow> bool" where
  "baseIsEqual (JArr xs) (JArr ys) = (length xs \<le> length ys \<and> equalArrays xs ys)"
| "baseIsEqual (JObj kvs) (JObj ovs) = equalObjects kvs ovs"
| "baseIsEqual a b = (a = b)"
| "equalArrays [] ys = True"
| "equalArrays (x # xs) ys =
     (case arraySome x ys of None \<Rightarrow> False | Some ys' \<Rightarrow> equalArrays xs ys')"
| "arraySome x [] = None"
| "arraySome x (y # ys) =
     (if baseIsEqual x y then Some ys else map_option ((#) y) (arraySome x ys))"
| "equalObjects [] ovs = True"
| "equalObjects ((k, v) # kvs) ovs =
     (case map_of ovs k of
        None \<Rightarrow> False
      | Some w \<Rightarrow> baseIsEqual v w \<and> equalObjects kvs ovs)"

text \<open>
  \<open>matches(source)(object)\<close>: \<open>baseIsMatch\<close> over the match data of the source. On
  \<open>undefined\<close> and \<open>null\<close> it answers whether the source has no property at all.
\<close>

definition matches :: "jsval \<Rightarrow> jsval \<Rightarrow> bool" where
  "matches source object =
     (if object = JUndefined \<or> object = JNull then own_props source = []
      else list_all (\<lambda>(k, srcValue).
             case map_of (all_props object) k of
               None \<Rightarrow> False
             | Some objValue \<Rightarrow> baseIsEqual srcValue objValue) (own_props source))"

text \<open>
  The elements that \<open>filter(collection, predicate)\<close> visits: those of an array, the
  characters of a string, the indexed properties of an object with a valid \<open>length\<close>
  (array-like), the own property values of any other object.
\<close>

fun elems :: "jsval \<Rightarrow> jsval list" where
  "elems (JArr xs) = xs"
| "elems (JStr s) = map (\<lambda>c. JStr [c]) s"
| "elems (JObj kvs) =
     (case map_of kvs ''length'' of
        Some (JNum n) \<Rightarrow>
          if 0 \<le> n \<and> n \<le> 9007199254740991
          then map (\<lambda>i. case map_of kvs (dec i) of None \<Rightarrow> JUndefined | Some v \<Rightarrow> v) [0..<nat n]
          else map snd kvs
      | _ \<Rightarrow> map snd kvs)"
| "elems _ = []"

definition lodash_filter :: "jsval \<Rightarrow> (jsval \<Rightarrow> bool) \<Rightarrow> jsval" where
  "lodash_filter collection predicate = JArr (filter predicate (elems collection))"

section \<open>The methods of ResourceRef\<close>

definition getResourceURL :: "Kube \<Rightarrow> ResourceRef \<Rightarrow> error + string" where
  "getResourceURL K this =
     (case resourcePlural K (kind this) of
        Inl e \<Rightarrow> Inl e
      | Inr plural \<Rightarrow> Inr (Kube_getResourceURL K (apiVersion this) plural (namespace this) (name this)))"

definition watchResourceURL :: "Kube \<Rightarrow> ResourceRef \<Rightarrow> error + string" where
  "watchResourceURL K this =
     (case resourcePlural K (kind this) of
        Inl e \<Rightarrow> Inl e
      | Inr plural \<Rightarrow> Inr (Kube_watchResourceURL K (apiVersion this) plural (namespace this) (name this)))"

text \<open>Truthiness of a value in a condition.\<close>

fun truthy :: "jsval \<Rightarrow> bool" where
  "truthy JUndefined = False"
| "truthy JNull = False"
| "truthy (JBool b) = b"
| "truthy (JNum n) = (n \<noteq> 0)"
| "truthy (JStr s) = (s \<noteq> [])"
| "truthy (JArr xs) = True"
| "truthy (JObj kvs) = True"

text \<open>
  \<open>getResource\<close>, with the awaited fetch as a result value. The condition reads the
  property \<open>items\<close> of the fetched object (\<open>undefined\<close> when there is none); the assignment
  replaces the value of the property where it stands.
\<close>

definition getResource :: "Kube \<Rightarrow> ResourceRef \<Rightarrow> error + (string \<times> jsval) list" where
  "getResource K this =
     (case resourcePlural K (kind this) of
        Inl e \<Rightarrow> Inl e
      | Inr plural \<Rightarrow>
          (case Kube_getResource K (apiVersion this) plural (namespace this) (name this) of
             Inl e \<Rightarrow> Inl e
           | Inr resource \<Rightarrow>
               (case map_of resource ''items'' of
                  None \<Rightarrow> Inr resource
                | Some items \<Rightarrow>
                    if truthy items
                    then Inr (AList.update ''items''
                               (lodash_filter items (matches (filter_ref this))) resource)
                    else Inr resource)))"

section \<open>The OperatorInstance component\<close>

text \<open>
  The fields of the CSV types, of the props and of the state that the lifecycle methods
  and the handlers read. The props \<open>resource\<close> and \<open>csv\<close> are compared by identity
  (\<open>!==\<close>), so an object prop is a pair of its address and its content.
\<close>

record IClusterServiceVersionCRD =
  crd_name :: string
  crd_kind :: string
  crd_resources :: "IClusterServiceVersionCRDResource list"

record IClusterServiceVersion =
  csv_owned :: "IClusterServiceVersionCRD list"

record IPartialAppViewState =
  ingressRefs :: "ResourceRef list"
  deployRefs :: "ResourceRef list"
  statefulSetRefs :: "ResourceRef list"
  daemonSetRefs :: "ResourceRef list"
  otherResources :: "ResourceRef list"
  serviceRefs :: "ResourceRef list"
  secretRefs :: "ResourceRef list"

record IOperatorInstanceState =
  modalIsOpen :: bool
  crd :: "IClusterServiceVersionCRD option"
  resources :: "IPartialAppViewState option"

text \<open>
  The callbacks of the props are effects: each call is recorded, in order. What the
  promise of \<open>deleteResource\<close> settles to is a function of its arguments (\<open>Inl\<close> when it is
  rejected).
\<close>

datatype effect =
    GetResourceCall string string string string
  | DeleteResourceCall string string "(nat \<times> IResource) option"
  | PushCall string

record IOperatorInstanceProps =
  p_namespace :: string
  csvName :: string
  crdName :: string
  instanceName :: string
  p_resource :: "(nat \<times> IResource) option"
  csv :: "(nat \<times> IClusterServiceVersion) option"
  deleteResource :: "string \<Rightarrow> string \<Rightarrow> (nat \<times> IResource) option \<Rightarrow> error + bool"

definition initial_state :: IOperatorInstanceState where
  "initial_state = \<lparr> modalIsOpen = False, crd = None, resources = None \<rparr>"

definition componentDidMount ::
  "IOperatorInstanceProps \<Rightarrow> IOperatorInstanceState \<Rightarrow> effect list \<times> (error + IOperatorInstanceState)" where
  "componentDidMount props st =
     ([GetResourceCall (p_namespace props) (csvName props) (crdName props) (instanceName props)],
      Inr st)"

text \<open>The body of the \<open>forEach\<close> callback: the \<open>switch\<close> on \<open>r.kind\<close>.\<close>

definition pushRef ::
  "Kube \<Rightarrow> string \<Rightarrow> jsval \<Rightarrow> IPartialAppViewState \<Rightarrow> IClusterServiceVersionCRDResource
     \<Rightarrow> error + IPartialAppViewState" where
  "pushRef K ns ownerRef result r =
     (if crdres_kind r = ''Deployment'' then
        (case fromCRD K r ns ownerRef of Inl e \<Rightarrow> Inl e
         | Inr ref \<Rightarrow> Inr (result\<lparr>deployRefs := deployRefs result @ [ref]\<rparr>))
      else if crdres_kind r = ''StatefulSet'' then
        (case fromCRD K r ns ownerRef of Inl e \<Rightarrow> Inl e
         | Inr ref \<Rightarrow> Inr (result\<lparr>statefulSetRefs := statefulSetRefs result @ [ref]\<rparr>))
      else if crdres_kind r = ''DaemonSet'' then
        (case fromCRD K r ns ownerRef of Inl e \<Rightarrow> Inl e
         | Inr ref \<Rightarrow> Inr (result\<lparr>daemonSetRefs := daemonSetRefs result @ [ref]\<rparr>))
      else if crdres_kind r = ''Service'' then
        (case fromCRD K r ns ownerRef of Inl e \<Rightarrow> Inl e
         | Inr ref \<Rightarrow> Inr (result\<lparr>serviceRefs := serviceRefs result @ [ref]\<rparr>))
      else if crdres_kind r = ''Ingress'' then
        (case fromCRD K r ns ownerRef of Inl e \<Rightarrow> Inl e
         | Inr ref \<Rightarrow> Inr (result\<lparr>ingressRefs := ingressRefs result @ [ref]\<rparr>))
      else if crdres_kind r = ''Secret'' then
        (case fromCRD K r ns ownerRef of Inl e \<Rightarrow> Inl e
         | Inr ref \<Rightarrow> Inr (result\<lparr>secretRefs := secretRefs result @ [ref]\<rparr>))
      else
        (case fromCRD K r ns ownerRef of Inl e \<Rightarrow> Inl e
         | Inr ref \<Rightarrow> Inr (result\<lparr>otherResources := otherResources result @ [ref]\<rparr>)))"

text \<open>\<open>forEach\<close> over an array, stopped by the first exception of the callback.\<close>

fun forEach :: "('s \<Rightarrow> 'a \<Rightarrow> error + 's) \<Rightarrow> 'a list \<Rightarrow> 's \<Rightarrow> error + 's" where
  "forEach f [] s = Inr s"
| "forEach f (x # xs) s = (case f s x of Inl e \<Rightarrow> Inl e | Inr s' \<Rightarrow> forEach f xs s')"

definition empty_result :: IPartialAppViewState where
  "empty_result = \<lparr> ingressRefs = [], deployRefs = [], statefulSetRefs = [], daemonSetRefs = [],
                     otherResources = [], serviceRefs = [], secretRefs = [] \<rparr>"

text \<open>The owner reference \<open>{ name: resource.metadata.name, kind: resource.kind }\<close>.\<close>

definition ownerRef_of :: "IResource \<Rightarrow> jsval" where
  "ownerRef_of resource =
     JObj [(''name'', JStr (md_name (res_metadata resource))), (''kind'', JStr (res_kind resource))]"

text \<open>The lookup \<open>csv.spec.customresourcedefinitions.owned.find(c => c.kind === resource.kind)\<close>.\<close>

definition find_owned ::
  "IClusterServiceVersion \<Rightarrow> IResource \<Rightarrow> IClusterServiceVersionCRD option" where
  "find_owned v resource = find (\<lambda>c. crd_kind c = res_kind resource) (csv_owned v)"

text \<open>
  \<open>componentDidUpdate(prevProps)\<close>. The local variable \<open>crd\<close> starts as the \<open>crd\<close> of the
  state and is replaced by the result of \<open>find\<close> when \<open>csv\<close> and \<open>resource\<close> are both there;
  \<open>setState\<close> merges its argument into the state.
\<close>

definition componentDidUpdate ::
  "Kube \<Rightarrow> IOperatorInstanceProps \<Rightarrow> IOperatorInstanceProps \<Rightarrow> IOperatorInstanceState
     \<Rightarrow> effect list \<times> (error + IOperatorInstanceState)" where
  "componentDidUpdate K prevProps props st =
     (if p_namespace prevProps \<noteq> p_namespace props then
        ([GetResourceCall (p_namespace props) (csvName props) (crdName props) (instanceName props)],
         Inr st)
      else if map_option fst (csv props) \<noteq> map_option fst (csv prevProps)
              \<or> map_option fst (p_resource props) \<noteq> map_option fst (p_resource prevProps) then
        (let found =
               (case csv props of
                  None \<Rightarrow> None
                | Some (a, v) \<Rightarrow>
                    (case p_resource props of
                       None \<Rightarrow> None
                     | Some (b, resource) \<Rightarrow>
                         Some (find_owned v resource)));
             crd' = (case found of None \<Rightarrow> crd st | Some c \<Rightarrow> c);
             st1 = (case found of None \<Rightarrow> st | Some c \<Rightarrow> st\<lparr>crd := c\<rparr>)
         in case crd' of
              None \<Rightarrow> ([], Inr st1)
            | Some c \<Rightarrow>
                (case p_resource props of
                   None \<Rightarrow> ([], Inr st1)
                 | Some (b, resource) \<Rightarrow>
                     (case forEach (pushRef K (p_namespace props) (ownerRef_of resource))
                             (crd_resources c) empty_result of
                        Inl e \<Rightarrow> ([], Inl e)
                      | Inr result \<Rightarrow> ([], Inr (st1\<lparr>resources := Some result\<rparr>)))))
      else ([], Inr st))"

definition openModal :: "IOperatorInstanceState \<Rightarrow> IOperatorInstanceState" where
  "openModal st = st\<lparr>modalIsOpen := True\<rparr>"

definition closeModal :: "IOperatorInstanceState \<Rightarrow> IOperatorInstanceState" where
  "closeModal st = st\<lparr>modalIsOpen := False\<rparr>"

text \<open>
  \<open>s.split(sep)\<close> for a separator of one character. The array it returns is never
  empty: it is given as its first element and the list of the others.
\<close>

fun split :: "char \<Rightarrow> string \<Rightarrow> string \<times> string list" where
  "split sep [] = ([], [])"
| "split sep (c # cs) =
     (let (w, ws) = split sep cs
      in if c = sep then ([], w # ws) else (c # w, ws))"

text \<open>
  \<open>handleDeleteClick\<close>. The arguments of \<open>deleteResource\<close> are evaluated before the call:
  \<open>crd!.name\<close> on an unset \<open>crd\<close> is a \<open>TypeError\<close> (the \<open>!\<close> is erased by the compiler), while
  \<open>resource!\<close> is passed on as it is. A rejected promise ends the handler at the \<open>await\<close>.
\<close>

definition handleDeleteClick ::
  "IOperatorInstanceProps \<Rightarrow> IOperatorInstanceState \<Rightarrow> effect list \<times> (error + IOperatorInstanceState)" where
  "handleDeleteClick props st =
     (case crd st of
        None \<Rightarrow> ([], Inl TypeError)
      | Some c \<Rightarrow>
          (case split CHR ''.'' (crd_name c) of
             (w, ws) \<Rightarrow>
               (case deleteResource props (p_namespace props) w (p_resource props) of
                  Inl e \<Rightarrow> ([DeleteResourceCall (p_namespace props) w (p_resource props)], Inl e)
                | Inr deleted \<Rightarrow>
                    if deleted
                    then ([DeleteResourceCall (p_namespace props) w (p_resource props),
                           PushCall (''/apps/ns/'' @ p_namespace props)], Inr (closeModal st))
                    else ([DeleteResourceCall (p_namespace props) w (p_resource props)],
                          Inr (closeModal st)))))"

section \<open>Sample data to evaluate the model on\<close>

text \<open>
  A stand-in for the absent module \<open>Kube\<close>, for evaluating the definitions on examples: every
  kind has the API version \<open>v1\<close> and the plural kind + \<open>s\<close>, and the fetch serves a list of
  two secrets, the first owned by the instance \<open>my-db\<close>.
\<close>

definition sampleKube :: Kube where
  "sampleKube =
     \<lparr> resourceAPIVersion = (\<lambda>k. Inr ''v1''),
       resourcePlural = (\<lambda>k. Inr (k @ ''s'')),
       Kube_getResourceURL = (\<lambda>v r ns n. ''api/'' @ v @ ''/namespaces/'' @ ns @ ''/'' @ r @ ''/'' @ n),
       Kube_watchResourceURL = (\<lambda>v r ns n. ''ws/'' @ v @ ''/namespaces/'' @ ns @ ''/'' @ r @ ''/'' @ n),
       Kube_getResource = (\<lambda>v r ns n.
         Inr [(''kind'', JStr ''List''),
              (''items'', JArr
                 [JObj [(''metadata'', JObj [(''name'', JStr ''s1''),
                          (''ownerReferences'', JArr [JObj [(''name'', JStr ''my-db''), (''kind'', JStr ''Db''),
                                                            (''uid'', JStr ''1'')]])])],
                  JObj [(''metadata'', JObj [(''name'', JStr ''s2'')])]])]) \<rparr>"

text \<open>A reference to the secrets that the instance \<open>my-db\<close> owns, as \<open>fromCRD\<close> builds it.\<close>

definition sampleRef :: ResourceRef where
  "sampleRef =
     \<lparr> apiVersion = ''v1'', kind = ''Secret'', name = '''', namespace = ''ns1'',
       filter_ref = JObj [(''metadata'', JObj [(''ownerReferences'',
                      JArr [JObj [(''name'', JStr ''my-db''), (''kind'', JStr ''Db'')]])])] \<rparr>"

text \<open>
  An instance \<open>my-db\<close> of kind \<open>Db\<close>, and a CSV that owns two CRDs, the second of kind \<open>Db\<close>
  with four owned resources.
\<close>

definition sampleResource :: IResource where
  "sampleResource =
     \<lparr> res_apiVersion = ''db.example.com/v1'', res_kind = ''Db'',
       res_metadata = \<lparr> md_name = ''my-db'', md_namespace = Some ''ns1'' \<rparr> \<rparr>"

definition sampleCRD :: IClusterServiceVersionCRD where
  "sampleCRD =
     \<lparr> crd_name = ''dbs.db.example.com'', crd_kind = ''Db'',
       crd_resources =
         [\<lparr> crdres_kind = ''Deployment'', crdres_name = ''d1'' \<rparr>,
          \<lparr> crdres_kind = ''Secret'', crdres_name = '''' \<rparr>,
          \<lparr> crdres_kind = ''ConfigMap'', crdres_name = ''c1'' \<rparr>,
          \<lparr> crdres_kind = ''Deployment'', crdres_name = ''d2'' \<rparr>] \<rparr>"

definition sampleCSV :: IClusterServiceVersion where
  "sampleCSV =
     \<lparr> csv_owned =
         [\<lparr> crd_name = ''caches.db.example.com'', crd_kind = ''Cache'', crd_resources = [] \<rparr>,
          sampleCRD] \<rparr>"

text \<open>
  Props before and after the CSV arrived (same namespace), and props of another
  namespace; \<open>deleteResource\<close> succeeds in \<open>ns1\<close> only.
\<close>

definition samplePrevProps :: IOperatorInstanceProps where
  "samplePrevProps =
     \<lparr> p_namespace = ''ns1'', csvName = ''db-operator'', crdName = ''dbs.db.example.com'',
       instanceName = ''my-db'', p_resource = Some (1, sampleResource), csv = None,
       deleteResource = (\<lambda>ns n r. Inr (ns = ''ns1'')) \<rparr>"

definition sampleProps :: IOperatorInstanceProps where
  "sampleProps = samplePrevProps\<lparr>csv := Some (2, sampleCSV)\<rparr>"

definition sampleOtherProps :: IOperatorInstanceProps where
  "sampleOtherProps = sampleProps\<lparr>p_namespace := ''ns2''\<rparr>"

section \<open>Properties of the constructor and of fromCRD\<close>

text \<open>
  C1: for a descriptor \<open>r\<close>, a non-empty namespace \<open>ns\<close> and an owner reference \<open>ow\<close>,
  \<open>fromCRD\<close> returns the reference whose apiVersion is what \<open>Kube.resourceAPIVersion\<close>
  gives for \<open>r.kind\<close>, whose kind and name are those of \<open>r\<close>, whose namespace is \<open>ns\<close> and
  whose filter is \<open>{ metadata: { ownerReferences: [ow] } }\<close>.
\<close>

theorem fromCRD_result:
  assumes "ns \<noteq> []" and "resourceAPIVersion K (crdres_kind r) = Inr v"
  shows "fromCRD K r ns ow =
           Inr \<lparr> apiVersion = v, kind = crdres_kind r, name = crdres_name r, namespace = ns,
                 filter_ref = JObj [(''metadata'', JObj [(''ownerReferences'', JArr [ow])])] \<rparr>"
  using assms by (simp add: fromCRD_def ResourceRef_new_def)

theorem fromCRD_result_witness:
  "fromCRD sampleKube \<lparr> crdres_kind = ''Secret'', crdres_name = '''' \<rparr> ''ns1'' (JStr ''x'') =
     Inr \<lparr> apiVersion = ''v1'', kind = ''Secret'', name = '''', namespace = ''ns1'',
           filter_ref = JObj [(''metadata'', JObj [(''ownerReferences'', JArr [JStr ''x''])])] \<rparr>"
  using fromCRD_result [of "''ns1''" sampleKube "\<lparr> crdres_kind = ''Secret'', crdres_name = '''' \<rparr>" "''v1''" "JStr ''x''"]
  by (simp add: sampleKube_def)

text \<open>
  C3: the constructor throws exactly when the namespace of the resource and the default
  namespace are both absent or empty; a reference that is built has the namespace of the
  resource when that is not empty and the default otherwise, and never an empty one.
\<close>

theorem ResourceRef_new_namespace:
  "((\<exists>e. ResourceRef_new r d f = Inl e) \<longleftrightarrow>
      (md_namespace (res_metadata r) = None \<or> md_namespace (res_metadata r) = Some [])
      \<and> (d = None \<or> d = Some []))
   \<and> (\<forall>ref. ResourceRef_new r d f = Inr ref \<longrightarrow>
         Some (namespace ref) =
           (if md_namespace (res_metadata r) = None \<or> md_namespace (res_metadata r) = Some []
            then d else md_namespace (res_metadata r))
         \<and> namespace ref \<noteq> [])"
  by (cases "md_namespace (res_metadata r)"; cases d)
     (auto simp: ResourceRef_new_def Let_def split: option.splits if_splits)

theorem ResourceRef_new_namespace_witness:
  "ResourceRef_new \<lparr> res_apiVersion = ''v1'', res_kind = ''Secret'',
        res_metadata = \<lparr> md_name = ''s'', md_namespace = Some [] \<rparr> \<rparr> (Some ''dflt'') JUndefined
     = Inr \<lparr> apiVersion = ''v1'', kind = ''Secret'', name = ''s'', namespace = ''dflt'', filter_ref = JUndefined \<rparr>
   \<and> Some (namespace \<lparr> apiVersion = ''v1'', kind = ''Secret'', name = ''s'', namespace = ''dflt'', filter_ref = JUndefined \<rparr>) = Some ''dflt''
   \<and> (\<exists>e. ResourceRef_new \<lparr> res_apiVersion = ''v1'', res_kind = ''Secret'',
        res_metadata = \<lparr> md_name = ''s'', md_namespace = Some [] \<rparr> \<rparr> None JUndefined = Inl e)"
  using ResourceRef_new_namespace [of "\<lparr> res_apiVersion = ''v1'', res_kind = ''Secret'',
        res_metadata = \<lparr> md_name = ''s'', md_namespace = Some [] \<rparr> \<rparr>" "Some ''dflt''" JUndefined]
    ResourceRef_new_namespace [of "\<lparr> res_apiVersion = ''v1'', res_kind = ''Secret'',
        res_metadata = \<lparr> md_name = ''s'', md_namespace = Some [] \<rparr> \<rparr>" None JUndefined]
  by (simp add: ResourceRef_new_def)

section \<open>Properties of the methods\<close>

text \<open>
  C4: \<open>getResourceURL\<close> and \<open>watchResourceURL\<close> return what \<open>Kube.getResourceURL\<close> and
  \<open>Kube.watchResourceURL\<close> give for the same four coordinates of the reference: its
  apiVersion, the plural of its kind, its namespace and its name.
\<close>

theorem resource_urls:
  assumes "resourcePlural K (kind ref) = Inr plural"
  shows "getResourceURL K ref =
           Inr (Kube_getResourceURL K (apiVersion ref) plural (namespace ref) (name ref))
         \<and> watchResourceURL K ref =
           Inr (Kube_watchResourceURL K (apiVersion ref) plural (namespace ref) (name ref))"
  using assms by (simp add: getResourceURL_def watchResourceURL_def)

theorem resource_urls_witness:
  "getResourceURL sampleKube \<lparr> apiVersion = ''v1'', kind = ''Secret'', name = ''s'', namespace = ''dflt'', filter_ref = JUndefined \<rparr>
     = Inr ''api/v1/namespaces/dflt/Secrets/s''
   \<and> watchResourceURL sampleKube \<lparr> apiVersion = ''v1'', kind = ''Secret'', name = ''s'', namespace = ''dflt'', filter_ref = JUndefined \<rparr>
     = Inr ''ws/v1/namespaces/dflt/Secrets/s''"
  using resource_urls [of sampleKube "\<lparr> apiVersion = ''v1'', kind = ''Secret'', name = ''s'', namespace = ''dflt'', filter_ref = JUndefined \<rparr>" "''Secrets''"]
  by (simp add: sampleKube_def)

lemma matches_undefined: "matches JUndefined x"
  by (simp add: matches_def)

text \<open>
  C5: \<open>getResource\<close> fetches with \<open>Kube.getResource\<close> at the apiVersion, the plural of the
  kind, the namespace and the name of the reference. A fetched value with a truthy
  \<open>items\<close> is returned with \<open>items\<close> replaced by the array of exactly the elements that
  \<open>matches(filter)\<close> accepts, in their order, and with every other property as fetched;
  a fetched value without a truthy \<open>items\<close> is returned unchanged.
\<close>

theorem getResource_filters_items:
  assumes "resourcePlural K (kind ref) = Inr plural"
    and "Kube_getResource K (apiVersion ref) plural (namespace ref) (name ref) = Inr fetched"
  shows "(\<forall>items. map_of fetched ''items'' = Some items \<and> truthy items \<longrightarrow>
            (\<exists>res. getResource K ref = Inr res
               \<and> res = AList.update ''items''
                         (JArr (filter (matches (filter_ref ref)) (elems items))) fetched
               \<and> map_of res ''items'' = Some (JArr (filter (matches (filter_ref ref)) (elems items)))
               \<and> (\<forall>k. k \<noteq> ''items'' \<longrightarrow> map_of res k = map_of fetched k)
               \<and> map fst res = map fst fetched))
       \<and> (\<forall>xs. map_of fetched ''items'' = Some (JArr xs) \<longrightarrow>
            (\<exists>res. getResource K ref = Inr res
               \<and> map_of res ''items'' = Some (JArr (filter (matches (filter_ref ref)) xs))))
       \<and> ((\<forall>items. map_of fetched ''items'' = Some items \<longrightarrow> \<not> truthy items) \<longrightarrow>
            getResource K ref = Inr fetched)"
proof (intro conjI allI impI)
  fix items
  assume h: "map_of fetched ''items'' = Some items \<and> truthy items"
  let ?new = "JArr (filter (matches (filter_ref ref)) (elems items))"
  have g: "getResource K ref = Inr (AList.update ''items'' ?new fetched)"
    using assms h by (simp add: getResource_def lodash_filter_def)
  have k: "''items'' \<in> set (map fst fetched)"
    using h by (metis map_of_eq_None_iff option.distinct(1) set_map)
  show "\<exists>res. getResource K ref = Inr res
               \<and> res = AList.update ''items'' ?new fetched
               \<and> map_of res ''items'' = Some ?new
               \<and> (\<forall>k. k \<noteq> ''items'' \<longrightarrow> map_of res k = map_of fetched k)
               \<and> map fst res = map fst fetched"
    using g k by (simp add: update_conv' update_keys)
next
  fix xs
  assume h: "map_of fetched ''items'' = Some (JArr xs)"
  have "getResource K ref =
          Inr (AList.update ''items'' (JArr (filter (matches (filter_ref ref)) xs)) fetched)"
    using assms h by (simp add: getResource_def lodash_filter_def)
  then show "\<exists>res. getResource K ref = Inr res
               \<and> map_of res ''items'' = Some (JArr (filter (matches (filter_ref ref)) xs))"
    by (simp add: update_conv')
next
  assume "\<forall>items. map_of fetched ''items'' = Some items \<longrightarrow> \<not> truthy items"
  then show "getResource K ref = Inr fetched"
    using assms by (simp add: getResource_def split: option.splits)
qed

theorem getResource_filters_items_witness:
  "(\<exists>res. getResource sampleKube sampleRef = Inr res
      \<and> map_of res ''items'' =
          Some (JArr [JObj [(''metadata'', JObj [(''name'', JStr ''s1''),
                  (''ownerReferences'', JArr [JObj [(''name'', JStr ''my-db''), (''kind'', JStr ''Db''),
                                                    (''uid'', JStr ''1'')]])])]]))
   \<and> getResource (sampleKube\<lparr>Kube_getResource := \<lambda>v r ns n. Inr [(''kind'', JStr ''Secret'')]\<rparr>) sampleRef
       = Inr [(''kind'', JStr ''Secret'')]"
  using getResource_filters_items [of sampleKube sampleRef "''Secrets''"
      "[(''kind'', JStr ''List''),
              (''items'', JArr
                 [JObj [(''metadata'', JObj [(''name'', JStr ''s1''),
                          (''ownerReferences'', JArr [JObj [(''name'', JStr ''my-db''), (''kind'', JStr ''Db''),
                                                            (''uid'', JStr ''1'')]])])],
                  JObj [(''metadata'', JObj [(''name'', JStr ''s2'')])]])]"]
    getResource_filters_items [of "sampleKube\<lparr>Kube_getResource := \<lambda>v r ns n. Inr [(''kind'', JStr ''Secret'')]\<rparr>"
      sampleRef "''Secrets''" "[(''kind'', JStr ''Secret'')]"]
  by (simp add: sampleKube_def sampleRef_def matches_def)

text \<open>
  C10: a reference constructed without a filter has the filter \<open>undefined\<close>, which
  \<open>matches\<close> turns into a predicate that accepts every value; so \<open>getResource\<close> returns a
  fetched list, with its \<open>items\<close> array, as it was fetched.
\<close>

theorem getResource_undefined_filter:
  assumes "ResourceRef_new r d JUndefined = Inr ref"
    and "resourcePlural K (kind ref) = Inr plural"
    and "Kube_getResource K (apiVersion ref) plural (namespace ref) (name ref) = Inr fetched"
    and "map_of fetched ''items'' = Some (JArr xs)"
  shows "(\<forall>x. matches (filter_ref ref) x) \<and> filter (matches (filter_ref ref)) xs = xs
         \<and> getResource K ref = Inr fetched"
proof -
  have f: "filter_ref ref = JUndefined"
    using assms(1) by (auto simp: ResourceRef_new_def Let_def split: option.splits if_splits)
  show ?thesis
    using assms(2-4) f by (simp add: getResource_def lodash_filter_def update_triv matches_undefined)
qed

theorem getResource_undefined_filter_witness:
  "getResource sampleKube (sampleRef\<lparr>filter_ref := JUndefined\<rparr>) =
     Inr [(''kind'', JStr ''List''),
              (''items'', JArr
                 [JObj [(''metadata'', JObj [(''name'', JStr ''s1''),
                          (''ownerReferences'', JArr [JObj [(''name'', JStr ''my-db''), (''kind'', JStr ''Db''),
                                                            (''uid'', JStr ''1'')]])])],
                  JObj [(''metadata'', JObj [(''name'', JStr ''s2'')])]])]"
  using getResource_undefined_filter [of
      "\<lparr> res_apiVersion = ''v1'', res_kind = ''Secret'',
         res_metadata = \<lparr> md_name = '''', md_namespace = None \<rparr> \<rparr>" "Some ''ns1''"
      "sampleRef\<lparr>filter_ref := JUndefined\<rparr>" sampleKube "''Secrets''"
      "[(''kind'', JStr ''List''),
              (''items'', JArr
                 [JObj [(''metadata'', JObj [(''name'', JStr ''s1''),
                          (''ownerReferences'', JArr [JObj [(''name'', JStr ''my-db''), (''kind'', JStr ''Db''),
                                                            (''uid'', JStr ''1'')]])])],
                  JObj [(''metadata'', JObj [(''name'', JStr ''s2'')])]])]"
      "[JObj [(''metadata'', JObj [(''name'', JStr ''s1''),
                          (''ownerReferences'', JArr [JObj [(''name'', JStr ''my-db''), (''kind'', JStr ''Db''),
                                                            (''uid'', JStr ''1'')]])])],
                  JObj [(''metadata'', JObj [(''name'', JStr ''s2'')])]]"]
  by (simp add: sampleKube_def sampleRef_def ResourceRef_new_def)

section \<open>Properties of the component\<close>

text \<open>What one run of the \<open>forEach\<close> callback does to each bucket.\<close>

lemma pushRef_Inr:
  assumes "pushRef K ns ow acc r = Inr acc'"
  shows "\<exists>ref. fromCRD K r ns ow = Inr ref
    \<and> deployRefs acc' = deployRefs acc @ (if crdres_kind r = ''Deployment'' then [ref] else [])
    \<and> statefulSetRefs acc' = statefulSetRefs acc @ (if crdres_kind r = ''StatefulSet'' then [ref] else [])
    \<and> daemonSetRefs acc' = daemonSetRefs acc @ (if crdres_kind r = ''DaemonSet'' then [ref] else [])
    \<and> serviceRefs acc' = serviceRefs acc @ (if crdres_kind r = ''Service'' then [ref] else [])
    \<and> ingressRefs acc' = ingressRefs acc @ (if crdres_kind r = ''Ingress'' then [ref] else [])
    \<and> secretRefs acc' = secretRefs acc @ (if crdres_kind r = ''Secret'' then [ref] else [])
    \<and> otherResources acc' = otherResources acc @
         (if crdres_kind r \<notin> {''Deployment'', ''StatefulSet'', ''DaemonSet'', ''Service'', ''Ingress'', ''Secret''}
          then [ref] else [])"
proof (cases "fromCRD K r ns ow")
  case (Inl e)
  with assms show ?thesis by (simp add: pushRef_def split: if_splits)
next
  case (Inr ref)
  with assms show ?thesis by (auto simp: pushRef_def split: if_splits)
qed

text \<open>
  A bucket read by \<open>sel\<close> that the callback extends exactly for the resources satisfying
  \<open>P\<close> holds, after the loop, the references of those resources in their order.
\<close>

lemma forEach_bucket:
  assumes step: "\<And>acc r acc'. pushRef K ns ow acc r = Inr acc' \<Longrightarrow>
             \<exists>ref. fromCRD K r ns ow = Inr ref \<and> sel acc' = sel acc @ (if P r then [ref] else [])"
  shows "forEach (pushRef K ns ow) rs acc = Inr result \<Longrightarrow>
         map Inr (sel result) = map Inr (sel acc) @ map (\<lambda>r. fromCRD K r ns ow) (filter P rs)"
proof (induction rs arbitrary: acc)
  case Nil
  then show ?case by simp
next
  case (Cons r rs)
  from Cons.prems obtain acc' where a: "pushRef K ns ow acc r = Inr acc'"
    and b: "forEach (pushRef K ns ow) rs acc' = Inr result"
    by (auto split: sum.splits)
  from step [OF a] obtain ref where c: "fromCRD K r ns ow = Inr ref"
    and d: "sel acc' = sel acc @ (if P r then [ref] else [])" by blast
  from Cons.IH [OF b] c d show ?case by simp
qed

lemma forEach_total:
  "forEach (pushRef K ns ow) rs acc = Inr result \<Longrightarrow>
   length (deployRefs result) + length (statefulSetRefs result) + length (daemonSetRefs result)
     + length (serviceRefs result) + length (ingressRefs result) + length (secretRefs result)
     + length (otherResources result)
   = length (deployRefs acc) + length (statefulSetRefs acc) + length (daemonSetRefs acc)
     + length (serviceRefs acc) + length (ingressRefs acc) + length (secretRefs acc)
     + length (otherResources acc) + length rs"
proof (induction rs arbitrary: acc)
  case Nil
  then show ?case by simp
next
  case (Cons r rs)
  from Cons.prems obtain acc' where a: "pushRef K ns ow acc r = Inr acc'"
    and b: "forEach (pushRef K ns ow) rs acc' = Inr result"
    by (auto split: sum.splits)
  from pushRef_Inr [OF a] obtain ref where
    "deployRefs acc' = deployRefs acc @ (if crdres_kind r = ''Deployment'' then [ref] else [])"
    "statefulSetRefs acc' = statefulSetRefs acc @ (if crdres_kind r = ''StatefulSet'' then [ref] else [])"
    "daemonSetRefs acc' = daemonSetRefs acc @ (if crdres_kind r = ''DaemonSet'' then [ref] else [])"
    "serviceRefs acc' = serviceRefs acc @ (if crdres_kind r = ''Service'' then [ref] else [])"
    "ingressRefs acc' = ingressRefs acc @ (if crdres_kind r = ''Ingress'' then [ref] else [])"
    "secretRefs acc' = secretRefs acc @ (if crdres_kind r = ''Secret'' then [ref] else [])"
    "otherResources acc' = otherResources acc @
         (if crdres_kind r \<notin> {''Deployment'', ''StatefulSet'', ''DaemonSet'', ''Service'', ''Ingress'', ''Secret''}
          then [ref] else [])" by blast
  with Cons.IH [OF b] show ?case by (auto split: if_splits)
qed

text \<open>The loop of \<open>componentDidUpdate\<close>, started on the empty buckets.\<close>

lemma forEach_buckets:
  assumes "forEach (pushRef K ns ow) rs empty_result = Inr result"
  shows "map Inr (deployRefs result) =
           map (\<lambda>r. fromCRD K r ns ow) (filter (\<lambda>r. crdres_kind r = ''Deployment'') rs)"
    and "map Inr (statefulSetRefs result) =
           map (\<lambda>r. fromCRD K r ns ow) (filter (\<lambda>r. crdres_kind r = ''StatefulSet'') rs)"
    and "map Inr (daemonSetRefs result) =
           map (\<lambda>r. fromCRD K r ns ow) (filter (\<lambda>r. crdres_kind r = ''DaemonSet'') rs)"
    and "map Inr (serviceRefs result) =
           map (\<lambda>r. fromCRD K r ns ow) (filter (\<lambda>r. crdres_kind r = ''Service'') rs)"
    and "map Inr (ingressRefs result) =
           map (\<lambda>r. fromCRD K r ns ow) (filter (\<lambda>r. crdres_kind r = ''Ingress'') rs)"
    and "map Inr (secretRefs result) =
           map (\<lambda>r. fromCRD K r ns ow) (filter (\<lambda>r. crdres_kind r = ''Secret'') rs)"
    and "map Inr (otherResources result) =
           map (\<lambda>r. fromCRD K r ns ow)
             (filter (\<lambda>r. crdres_kind r \<notin> {''Deployment'', ''StatefulSet'', ''DaemonSet'',
                                            ''Service'', ''Ingress'', ''Secret''}) rs)"
    and "length (deployRefs result) + length (statefulSetRefs result)
           + length (daemonSetRefs result) + length (serviceRefs result)
           + length (ingressRefs result) + length (secretRefs result)
           + length (otherResources result) = length rs"
proof -
  have "\<exists>ref. fromCRD K r ns ow = Inr ref
          \<and> deployRefs acc' = deployRefs acc @ (if (\<lambda>r. crdres_kind r = ''Deployment'') r then [ref] else [])"
    if h: "pushRef K ns ow acc r = Inr acc'" for acc r acc'
    using pushRef_Inr [OF h] by auto
  from forEach_bucket [where sel = deployRefs and P = "\<lambda>r. crdres_kind r = ''Deployment''", OF this assms]
  show "map Inr (deployRefs result) =
           map (\<lambda>r. fromCRD K r ns ow) (filter (\<lambda>r. crdres_kind r = ''Deployment'') rs)"
    by (simp add: empty_result_def)
  have "\<exists>ref. fromCRD K r ns ow = Inr ref
          \<and> statefulSetRefs acc' = statefulSetRefs acc @ (if (\<lambda>r. crdres_kind r = ''StatefulSet'') r then [ref] else [])"
    if h: "pushRef K ns ow acc r = Inr acc'" for acc r acc'
    using pushRef_Inr [OF h] by auto
  from forEach_bucket [where sel = statefulSetRefs and P = "\<lambda>r. crdres_kind r = ''StatefulSet''", OF this assms]
  show "map Inr (statefulSetRefs result) =
           map (\<lambda>r. fromCRD K r ns ow) (filter (\<lambda>r. crdres_kind r = ''StatefulSet'') rs)"
    by (simp add: empty_result_def)
  have "\<exists>ref. fromCRD K r ns ow = Inr ref
          \<and> daemonSetRefs acc' = daemonSetRefs acc @ (if (\<lambda>r. crdres_kind r = ''DaemonSet'') r then [ref] else [])"
    if h: "pushRef K ns ow acc r = Inr acc'" for acc r acc'
    using pushRef_Inr [OF h] by auto
  from forEach_bucket [where sel = daemonSetRefs and P = "\<lambda>r. crdres_kind r = ''DaemonSet''", OF this assms]
  show "map Inr (daemonSetRefs result) =
           map (\<lambda>r. fromCRD K r ns ow) (filter (\<lambda>r. crdres_kind r = ''DaemonSet'') rs)"
    by (simp add: empty_result_def)
  have "\<exists>ref. fromCRD K r ns ow = Inr ref
          \<and> serviceRefs acc' = serviceRefs acc @ (if (\<lambda>r. crdres_kind r = ''Service'') r then [ref] else [])"
    if h: "pushRef K ns ow acc r = Inr acc'" for acc r acc'
    using pushRef_Inr [OF h] by auto
  from forEach_bucket [where sel = serviceRefs and P = "\<lambda>r. crdres_kind r = ''Service''", OF this assms]
  show "map Inr (serviceRefs result) =
           map (\<lambda>r. fromCRD K r ns ow) (filter (\<lambda>r. crdres_kind r = ''Service'') rs)"
    by (simp add: empty_result_def)
  have "\<exists>ref. fromCRD K r ns ow = Inr ref
          \<and> ingressRefs acc' = ingressRefs acc @ (if (\<lambda>r. crdres_kind r = ''Ingress'') r then [ref] else [])"
    if h: "pushRef K ns ow acc r = Inr acc'" for acc r acc'
    using pushRef_Inr [OF h] by auto
  from forEach_bucket [where sel = ingressRefs and P = "\<lambda>r. crdres_kind r = ''Ingress''", OF this assms]
  show "map Inr (ingressRefs result) =
           map (\<lambda>r. fromCRD K r ns ow) (filter (\<lambda>r. crdres_kind r = ''Ingress'') rs)"
    by (simp add: empty_result_def)
  have "\<exists>ref. fromCRD K r ns ow = Inr ref
          \<and> secretRefs acc' = secretRefs acc @ (if (\<lambda>r. crdres_kind r = ''Secret'') r then [ref] else [])"
    if h: "pushRef K ns ow acc r = Inr acc'" for acc r acc'
    using pushRef_Inr [OF h] by auto
  from forEach_bucket [where sel = secretRefs and P = "\<lambda>r. crdres_kind r = ''Secret''", OF this assms]
  show "map Inr (secretRefs result) =
           map (\<lambda>r. fromCRD K r ns ow) (filter (\<lambda>r. crdres_kind r = ''Secret'') rs)"
    by (simp add: empty_result_def)
  have "\<exists>ref. fromCRD K r ns ow = Inr ref
          \<and> otherResources acc' = otherResources acc @ (if (\<lambda>r. crdres_kind r \<notin> {''Deployment'', ''StatefulSet'', ''DaemonSet'',
                                            ''Service'', ''Ingress'', ''Secret''}) r then [ref] else [])"
    if h: "pushRef K ns ow acc r = Inr acc'" for acc r acc'
    using pushRef_Inr [OF h] by auto
  from forEach_bucket [where sel = otherResources and P = "\<lambda>r. crdres_kind r \<notin> {''Deployment'', ''StatefulSet'', ''DaemonSet'',
                                            ''Service'', ''Ingress'', ''Secret''}", OF this assms]
  show "map Inr (otherResources result) =
           map (\<lambda>r. fromCRD K r ns ow) (filter (\<lambda>r. crdres_kind r \<notin> {''Deployment'', ''StatefulSet'', ''DaemonSet'',
                                            ''Service'', ''Ingress'', ''Secret''}) rs)"
    by (simp add: empty_result_def)
  show "length (deployRefs result) + length (statefulSetRefs result)
           + length (daemonSetRefs result) + length (serviceRefs result)
           + length (ingressRefs result) + length (secretRefs result)
           + length (otherResources result) = length rs"
    using forEach_total [OF assms] by (simp add: empty_result_def)
qed

text \<open>
  C2: when an update with an unchanged namespace and a changed \<open>csv\<close> or \<open>resource\<close> runs
  to its end with \<open>resource\<close> present and the \<open>crd\<close> of the resulting state present, the
  state holds freshly built buckets: each bucket is the list, in the order of
  \<open>crd.resources\<close>, of \<open>fromCRD(r, namespace, { name: resource.metadata.name, kind:
  resource.kind })\<close> for the entries \<open>r\<close> of its kind (every kind outside the six named ones
  goes to \<open>otherResources\<close>), and the buckets together hold as many references as
  \<open>crd.resources\<close> has entries.
\<close>

theorem componentDidUpdate_buckets:
  assumes "p_namespace prevProps = p_namespace props"
    and "map_option fst (csv props) \<noteq> map_option fst (csv prevProps)
         \<or> map_option fst (p_resource props) \<noteq> map_option fst (p_resource prevProps)"
    and "p_resource props = Some (b, resource)"
    and "componentDidUpdate K prevProps props st = (effs, Inr st')"
    and "crd st' = Some c"
    and "ow = JObj [(''name'', JStr (md_name (res_metadata resource))),
                    (''kind'', JStr (res_kind resource))]"
  shows "\<exists>result. resources st' = Some result
     \<and> map Inr (deployRefs result) =
         map (\<lambda>r. fromCRD K r (p_namespace props) ow)
           (filter (\<lambda>r. crdres_kind r = ''Deployment'') (crd_resources c))
     \<and> map Inr (statefulSetRefs result) =
         map (\<lambda>r. fromCRD K r (p_namespace props) ow)
           (filter (\<lambda>r. crdres_kind r = ''StatefulSet'') (crd_resources c))
     \<and> map Inr (daemonSetRefs result) =
         map (\<lambda>r. fromCRD K r (p_namespace props) ow)
           (filter (\<lambda>r. crdres_kind r = ''DaemonSet'') (crd_resources c))
     \<and> map Inr (serviceRefs result) =
         map (\<lambda>r. fromCRD K r (p_namespace props) ow)
           (filter (\<lambda>r. crdres_kind r = ''Service'') (crd_resources c))
     \<and> map Inr (ingressRefs result) =
         map (\<lambda>r. fromCRD K r (p_namespace props) ow)
           (filter (\<lambda>r. crdres_kind r = ''Ingress'') (crd_resources c))
     \<and> map Inr (secretRefs result) =
         map (\<lambda>r. fromCRD K r (p_namespace props) ow)
           (filter (\<lambda>r. crdres_kind r = ''Secret'') (crd_resources c))
     \<and> map Inr (otherResources result) =
         map (\<lambda>r. fromCRD K r (p_namespace props) ow)
           (filter (\<lambda>r. crdres_kind r \<notin> {''Deployment'', ''StatefulSet'', ''DaemonSet'',
                                          ''Service'', ''Ingress'', ''Secret''}) (crd_resources c))
     \<and> length (deployRefs result) + length (statefulSetRefs result)
           + length (daemonSetRefs result) + length (serviceRefs result)
           + length (ingressRefs result) + length (secretRefs result)
           + length (otherResources result) = length (crd_resources c)"
proof -
  have "\<exists>result. forEach (pushRef K (p_namespace props) ow) (crd_resources c) empty_result = Inr result
          \<and> resources st' = Some result"
    using assms
    by (auto simp: componentDidUpdate_def ownerRef_of_def Let_def
             split: option.splits sum.splits if_splits)
  then obtain result
    where loop: "forEach (pushRef K (p_namespace props) ow) (crd_resources c) empty_result = Inr result"
      and res: "resources st' = Some result" by blast
  from res forEach_buckets [OF loop] show ?thesis by blast
qed

theorem componentDidUpdate_buckets_witness:
  "\<exists>st' result. componentDidUpdate sampleKube samplePrevProps sampleProps initial_state = ([], Inr st')
     \<and> crd st' = Some sampleCRD \<and> resources st' = Some result
     \<and> map name (deployRefs result) = [''d1'', ''d2'']
     \<and> map name (secretRefs result) = ['''']
     \<and> map name (otherResources result) = [''c1'']
     \<and> statefulSetRefs result = [] \<and> daemonSetRefs result = []
     \<and> serviceRefs result = [] \<and> ingressRefs result = []"
proof -
  have "\<exists>st'. componentDidUpdate sampleKube samplePrevProps sampleProps initial_state = ([], Inr st')
          \<and> crd st' = Some sampleCRD"
    by (simp add: componentDidUpdate_def samplePrevProps_def sampleProps_def initial_state_def
          sampleCSV_def sampleCRD_def sampleResource_def find_owned_def pushRef_def fromCRD_def
          ResourceRef_new_def sampleKube_def empty_result_def ownerRef_of_def)
  then obtain st' where
    run: "componentDidUpdate sampleKube samplePrevProps sampleProps initial_state = ([], Inr st')"
    and c: "crd st' = Some sampleCRD" by blast
  have ns: "p_namespace samplePrevProps = p_namespace sampleProps"
    by (simp add: sampleProps_def)
  have ch: "map_option fst (csv sampleProps) \<noteq> map_option fst (csv samplePrevProps)
         \<or> map_option fst (p_resource sampleProps) \<noteq> map_option fst (p_resource samplePrevProps)"
    by (simp add: sampleProps_def samplePrevProps_def)
  have r: "p_resource sampleProps = Some (1, sampleResource)"
    by (simp add: sampleProps_def samplePrevProps_def)
  from componentDidUpdate_buckets [OF ns ch r run c refl]
  obtain result where res: "resources st' = Some result"
    and d: "map Inr (deployRefs result) =
         map (\<lambda>r. fromCRD sampleKube r (p_namespace sampleProps)
                (JObj [(''name'', JStr (md_name (res_metadata sampleResource))),
                       (''kind'', JStr (res_kind sampleResource))]))
           (filter (\<lambda>r. crdres_kind r = ''Deployment'') (crd_resources sampleCRD))"
    and s: "map Inr (secretRefs result) =
         map (\<lambda>r. fromCRD sampleKube r (p_namespace sampleProps)
                (JObj [(''name'', JStr (md_name (res_metadata sampleResource))),
                       (''kind'', JStr (res_kind sampleResource))]))
           (filter (\<lambda>r. crdres_kind r = ''Secret'') (crd_resources sampleCRD))"
    and o: "map Inr (otherResources result) =
         map (\<lambda>r. fromCRD sampleKube r (p_namespace sampleProps)
                (JObj [(''name'', JStr (md_name (res_metadata sampleResource))),
                       (''kind'', JStr (res_kind sampleResource))]))
           (filter (\<lambda>r. crdres_kind r \<notin> {''Deployment'', ''StatefulSet'', ''DaemonSet'',
                                          ''Service'', ''Ingress'', ''Secret''}) (crd_resources sampleCRD))"
    and e: "map Inr (statefulSetRefs result) =
         map (\<lambda>r. fromCRD sampleKube r (p_namespace sampleProps)
                (JObj [(''name'', JStr (md_name (res_metadata sampleResource))),
                       (''kind'', JStr (res_kind sampleResource))]))
           (filter (\<lambda>r. crdres_kind r = ''StatefulSet'') (crd_resources sampleCRD))"
         "map Inr (daemonSetRefs result) =
         map (\<lambda>r. fromCRD sampleKube r (p_namespace sampleProps)
                (JObj [(''name'', JStr (md_name (res_metadata sampleResource))),
                       (''kind'', JStr (res_kind sampleResource))]))
           (filter (\<lambda>r. crdres_kind r = ''DaemonSet'') (crd_resources sampleCRD))"
         "map Inr (serviceRefs result) =
         map (\<lambda>r. fromCRD sampleKube r (p_namespace sampleProps)
                (JObj [(''name'', JStr (md_name (res_metadata sampleResource))),
                       (''kind'', JStr (res_kind sampleResource))]))
           (filter (\<lambda>r. crdres_kind r = ''Service'') (crd_resources sampleCRD))"
         "map Inr (ingressRefs result) =
         map (\<lambda>r. fromCRD sampleKube r (p_namespace sampleProps)
                (JObj [(''name'', JStr (md_name (res_metadata sampleResource))),
                       (''kind'', JStr (res_kind sampleResource))]))
           (filter (\<lambda>r. crdres_kind r = ''Ingress'') (crd_resources sampleCRD))"
    by blast
  have d': "map name (deployRefs result) = [''d1'', ''d2'']"
    using d by (auto simp: sampleCRD_def fromCRD_def ResourceRef_new_def sampleKube_def
                  sampleProps_def samplePrevProps_def map_eq_Cons_conv)
  have s': "map name (secretRefs result) = ['''']"
    using s by (auto simp: sampleCRD_def fromCRD_def ResourceRef_new_def sampleKube_def
                  sampleProps_def samplePrevProps_def map_eq_Cons_conv)
  have o': "map name (otherResources result) = [''c1'']"
    using o by (auto simp: sampleCRD_def fromCRD_def ResourceRef_new_def sampleKube_def
                  sampleProps_def samplePrevProps_def map_eq_Cons_conv)
  have e': "statefulSetRefs result = []" "daemonSetRefs result = []"
    "serviceRefs result = []" "ingressRefs result = []"
    using e by (simp_all add: sampleCRD_def)
  show ?thesis
    using run c res d' s' o' e' by (intro exI [of _ st'] exI [of _ result]) simp
qed

lemma split_first: "fst (split sep s) = takeWhile (\<lambda>x. x \<noteq> sep) s"
  by (induction s) (auto split: prod.splits)

text \<open>
  C7: an update whose namespace prop differs from the previous one calls
  \<open>getResource(namespace, csvName, crdName, instanceName)\<close> and does nothing else: the
  state, with its \<open>crd\<close> and \<open>resources\<close>, stays as it was. Mounting makes the same single call.
\<close>

theorem namespace_change_refetches:
  "(p_namespace prevProps \<noteq> p_namespace props \<longrightarrow>
      componentDidUpdate K prevProps props st =
        ([GetResourceCall (p_namespace props) (csvName props) (crdName props) (instanceName props)],
         Inr st))
   \<and> componentDidMount props st =
        ([GetResourceCall (p_namespace props) (csvName props) (crdName props) (instanceName props)],
         Inr st)"
  by (simp add: componentDidUpdate_def componentDidMount_def)

theorem namespace_change_refetches_witness:
  "componentDidUpdate sampleKube samplePrevProps sampleOtherProps initial_state =
     ([GetResourceCall ''ns2'' ''db-operator'' ''dbs.db.example.com'' ''my-db''], Inr initial_state)"
  using namespace_change_refetches [of samplePrevProps sampleOtherProps sampleKube initial_state]
  by (simp add: samplePrevProps_def sampleOtherProps_def sampleProps_def)

text \<open>
  C9: \<open>openModal\<close> sets \<open>modalIsOpen\<close> to true, \<open>closeModal\<close> sets it to false, and both leave
  \<open>crd\<close> and \<open>resources\<close> as they are; when \<open>handleDeleteClick\<close> has called
  \<open>deleteResource\<close> and the promise resolves, to true or to false, the state it leaves is
  the one with the modal closed and nothing else changed.
\<close>

theorem modal_state_frame:
  "openModal st = st\<lparr>modalIsOpen := True\<rparr>
   \<and> modalIsOpen (openModal st) \<and> crd (openModal st) = crd st
   \<and> resources (openModal st) = resources st
   \<and> closeModal st = st\<lparr>modalIsOpen := False\<rparr>
   \<and> \<not> modalIsOpen (closeModal st) \<and> crd (closeModal st) = crd st
   \<and> resources (closeModal st) = resources st
   \<and> (\<forall>c deleted. crd st = Some c
         \<and> deleteResource props (p_namespace props) (fst (split CHR ''.'' (crd_name c)))
              (p_resource props) = Inr deleted
         \<longrightarrow> snd (handleDeleteClick props st) = Inr (st\<lparr>modalIsOpen := False\<rparr>))
   \<and> (\<forall>st'. snd (handleDeleteClick props st) = Inr st' \<longrightarrow> st' = st\<lparr>modalIsOpen := False\<rparr>)"
  by (auto simp: openModal_def closeModal_def handleDeleteClick_def
           split: option.splits prod.splits sum.splits if_splits)

theorem modal_state_frame_witness:
  "snd (handleDeleteClick sampleProps (initial_state\<lparr>modalIsOpen := True, crd := Some sampleCRD\<rparr>))
     = Inr (initial_state\<lparr>modalIsOpen := False, crd := Some sampleCRD\<rparr>)
   \<and> snd (handleDeleteClick sampleOtherProps (initial_state\<lparr>modalIsOpen := True, crd := Some sampleCRD\<rparr>))
     = Inr (initial_state\<lparr>modalIsOpen := False, crd := Some sampleCRD\<rparr>)"
  using modal_state_frame [of "initial_state\<lparr>modalIsOpen := True, crd := Some sampleCRD\<rparr>" sampleProps]
    modal_state_frame [of "initial_state\<lparr>modalIsOpen := True, crd := Some sampleCRD\<rparr>" sampleOtherProps]
  by (simp add: initial_state_def sampleProps_def sampleOtherProps_def samplePrevProps_def
        sampleCRD_def handleDeleteClick_def closeModal_def openModal_def Let_def)

text \<open>
  The update of the component itself leaves \<open>crd\<close> unset when the CSV owns no CRD of the
  kind of the resource, with \<open>resource\<close> present, so that the handler is offered.
\<close>

lemma crd_unset_after_update:
  "componentDidUpdate sampleKube samplePrevProps
      (sampleProps\<lparr>p_resource := Some (3, sampleResource\<lparr>res_kind := ''Queue''\<rparr>)\<rparr>)
      initial_state = ([], Inr initial_state)
   \<and> crd initial_state = None"
  by (simp add: initial_state_def samplePrevProps_def sampleProps_def
        componentDidUpdate_def find_owned_def sampleCSV_def sampleCRD_def sampleResource_def)

text \<open>
  C6: the code at an instance whose \<open>crd\<close> is not set, after the update above or before
  the CSV has arrived. Confirming the deletion throws while \<open>crd!.name\<close> is evaluated:
  \<open>deleteResource\<close> is not called, the modal is not closed and nothing is pushed.
\<close>

theorem handleDeleteClick_crd_unset:
  "handleDeleteClick
        (sampleProps\<lparr>p_resource := Some (3, sampleResource\<lparr>res_kind := ''Queue''\<rparr>)\<rparr>)
        initial_state = ([], Inl TypeError)
   \<and> p_resource samplePrevProps = Some (1, sampleResource)
   \<and> csv samplePrevProps = None
   \<and> handleDeleteClick samplePrevProps initial_state = ([], Inl TypeError)"
  by (simp add: initial_state_def samplePrevProps_def sampleProps_def handleDeleteClick_def)

text \<open>
  On the path where the \<open>crd\<close> of the state is set, the handler calls \<open>deleteResource\<close> with
  the namespace, the part of the CRD name before its first \<open>.\<close> and the resource of the
  props, and then pushes \<open>/apps/ns/<namespace>\<close> exactly when the promise resolves to
  true; these are all the calls it makes.
\<close>

lemma handleDeleteClick_crd_set:
  assumes "crd st = Some c"
    and "seg = takeWhile (\<lambda>x. x \<noteq> CHR ''.'') (crd_name c)"
  shows "fst (handleDeleteClick props st) =
           DeleteResourceCall (p_namespace props) seg (p_resource props) #
             (if deleteResource props (p_namespace props) seg (p_resource props) = Inr True
              then [PushCall (''/apps/ns/'' @ p_namespace props)] else [])"
proof -
  obtain w ws where s: "split CHR ''.'' (crd_name c) = (w, ws)"
    by (cases "split CHR ''.'' (crd_name c)")
  then have "w = seg"
    using split_first [of "CHR ''.''" "crd_name c"] assms(2) by simp
  with s assms(1) show ?thesis
    by (cases "deleteResource props (p_namespace props) seg (p_resource props)")
       (auto simp: handleDeleteClick_def)
qed

lemma handleDeleteClick_crd_set_example:
  "fst (handleDeleteClick sampleProps (initial_state\<lparr>crd := Some sampleCRD\<rparr>)) =
     [DeleteResourceCall ''ns1'' ''dbs'' (Some (1, sampleResource)), PushCall ''/apps/ns/ns1'']
   \<and> fst (handleDeleteClick sampleOtherProps (initial_state\<lparr>crd := Some sampleCRD\<rparr>)) =
     [DeleteResourceCall ''ns2'' ''dbs'' (Some (1, sampleResource))]"
  using handleDeleteClick_crd_set [of "initial_state\<lparr>crd := Some sampleCRD\<rparr>" sampleCRD "''dbs''" sampleProps]
    handleDeleteClick_crd_set [of "initial_state\<lparr>crd := Some sampleCRD\<rparr>" sampleCRD "''dbs''" sampleOtherProps]
  by (simp add: initial_state_def sampleCRD_def sampleProps_def sampleOtherProps_def
        samplePrevProps_def)

text \<open>
  C8, as the claim states it, at an update where the CSV arrives together with a change
  of namespace: \<open>csv\<close> changed, \<open>csv\<close> and \<open>resource\<close> are both present and the CSV owns a
  CRD of the kind of the resource, yet the update returns after its call of \<open>getResource\<close>
  and the \<open>crd\<close> of the state stays unset.
\<close>

theorem crd_lookup_counterexample:
  "map_option fst (csv sampleOtherProps) \<noteq> map_option fst (csv samplePrevProps)
   \<and> csv sampleOtherProps = Some (2, sampleCSV)
   \<and> p_resource sampleOtherProps = Some (1, sampleResource)
   \<and> find_owned sampleCSV sampleResource = Some sampleCRD
   \<and> componentDidUpdate sampleKube samplePrevProps sampleOtherProps initial_state =
       ([GetResourceCall ''ns2'' ''db-operator'' ''dbs.db.example.com'' ''my-db''], Inr initial_state)
   \<and> crd initial_state = None"
  by (simp add: sampleOtherProps_def sampleProps_def samplePrevProps_def find_owned_def
        sampleCSV_def sampleCRD_def sampleResource_def componentDidUpdate_def initial_state_def)

text \<open>
  C8, amended: in an update with an unchanged namespace, a changed \<open>csv\<close> or \<open>resource\<close>
  and both of them present, the \<open>crd\<close> of the state becomes the first element of
  \<open>csv.spec.customresourcedefinitions.owned\<close> whose kind is that of the resource, or
  \<open>undefined\<close> when there is none. References are built in that update only from a CRD
  found this way: with none found the update does nothing else, whatever \<open>crd\<close> the state
  held before; with one found the buckets are built from its resources.
\<close>

theorem componentDidUpdate_crd_lookup:
  assumes "p_namespace prevProps = p_namespace props"
    and "map_option fst (csv props) \<noteq> map_option fst (csv prevProps)
         \<or> map_option fst (p_resource props) \<noteq> map_option fst (p_resource prevProps)"
    and "csv props = Some (a, v)"
    and "p_resource props = Some (b, resource)"
  shows "(\<forall>st'. snd (componentDidUpdate K prevProps props st) = Inr st' \<longrightarrow>
            crd st' = find_owned v resource)
     \<and> (find_owned v resource = None \<longrightarrow>
            componentDidUpdate K prevProps props st = ([], Inr (st\<lparr>crd := None\<rparr>)))
     \<and> (\<forall>c. find_owned v resource = Some c \<longrightarrow>
            componentDidUpdate K prevProps props st =
              ([], case forEach (pushRef K (p_namespace props)
                           (JObj [(''name'', JStr (md_name (res_metadata resource))),
                                  (''kind'', JStr (res_kind resource))]))
                         (crd_resources c) empty_result of
                     Inl e \<Rightarrow> Inl e
                   | Inr result \<Rightarrow> Inr (st\<lparr>crd := Some c, resources := Some result\<rparr>)))
     \<and> (\<forall>c. find_owned v resource = Some c \<longleftrightarrow>
            (\<exists>i < length (csv_owned v). csv_owned v ! i = c \<and> crd_kind c = res_kind resource
               \<and> (\<forall>j < i. crd_kind (csv_owned v ! j) \<noteq> res_kind resource)))
     \<and> (find_owned v resource = None \<longleftrightarrow>
            (\<forall>c \<in> set (csv_owned v). crd_kind c \<noteq> res_kind resource))"
proof (intro conjI)
  show "\<forall>st'. snd (componentDidUpdate K prevProps props st) = Inr st' \<longrightarrow>
            crd st' = find_owned v resource"
    using assms
    by (auto simp: componentDidUpdate_def Let_def split: option.splits sum.splits)
  show "find_owned v resource = None \<longrightarrow>
            componentDidUpdate K prevProps props st = ([], Inr (st\<lparr>crd := None\<rparr>))"
    using assms by (auto simp: componentDidUpdate_def Let_def)
  show "\<forall>c. find_owned v resource = Some c \<longrightarrow>
            componentDidUpdate K prevProps props st =
              ([], case forEach (pushRef K (p_namespace props)
                           (JObj [(''name'', JStr (md_name (res_metadata resource))),
                                  (''kind'', JStr (res_kind resource))]))
                         (crd_resources c) empty_result of
                     Inl e \<Rightarrow> Inl e
                   | Inr result \<Rightarrow> Inr (st\<lparr>crd := Some c, resources := Some result\<rparr>))"
    using assms
    by (auto simp: componentDidUpdate_def ownerRef_of_def Let_def split: sum.splits)
  show "\<forall>c. find_owned v resource = Some c \<longleftrightarrow>
            (\<exists>i < length (csv_owned v). csv_owned v ! i = c \<and> crd_kind c = res_kind resource
               \<and> (\<forall>j < i. crd_kind (csv_owned v ! j) \<noteq> res_kind resource))"
    by (auto simp: find_owned_def find_Some_iff)
  show "find_owned v resource = None \<longleftrightarrow>
            (\<forall>c \<in> set (csv_owned v). crd_kind c \<noteq> res_kind resource)"
    by (auto simp: find_owned_def find_None_iff)
qed

theorem componentDidUpdate_crd_lookup_witness:
  "(\<exists>st'. snd (componentDidUpdate sampleKube samplePrevProps sampleProps initial_state) = Inr st'
      \<and> crd st' = Some sampleCRD)
   \<and> find_owned sampleCSV sampleResource = Some sampleCRD
   \<and> componentDidUpdate sampleKube samplePrevProps
        (sampleProps\<lparr>p_resource := Some (3, sampleResource\<lparr>res_kind := ''Queue''\<rparr>)\<rparr>)
        (initial_state\<lparr>crd := Some sampleCRD\<rparr>) = ([], Inr initial_state)"
proof -
  have f: "find_owned sampleCSV sampleResource = Some sampleCRD"
    by (simp add: find_owned_def sampleCSV_def sampleCRD_def sampleResource_def)
  have g: "find_owned sampleCSV (sampleResource\<lparr>res_kind := ''Queue''\<rparr>) = None"
    by (simp add: find_owned_def sampleCSV_def sampleCRD_def sampleResource_def)
  have run: "\<exists>st'. snd (componentDidUpdate sampleKube samplePrevProps sampleProps initial_state) = Inr st'"
    by (simp add: componentDidUpdate_def samplePrevProps_def sampleProps_def initial_state_def
          sampleCSV_def sampleCRD_def sampleResource_def find_owned_def pushRef_def fromCRD_def
          ResourceRef_new_def sampleKube_def empty_result_def ownerRef_of_def)
  have 1: "\<forall>st'. snd (componentDidUpdate sampleKube samplePrevProps sampleProps initial_state) = Inr st' \<longrightarrow>
            crd st' = find_owned sampleCSV sampleResource"
    using componentDidUpdate_crd_lookup [of samplePrevProps sampleProps 2 sampleCSV 1 sampleResource
        sampleKube initial_state]
    by (simp add: sampleProps_def samplePrevProps_def)
  have 2: "componentDidUpdate sampleKube samplePrevProps
        (sampleProps\<lparr>p_resource := Some (3, sampleResource\<lparr>res_kind := ''Queue''\<rparr>)\<rparr>)
        (initial_state\<lparr>crd := Some sampleCRD\<rparr>) = ([], Inr (initial_state\<lparr>crd := Some sampleCRD, crd := None\<rparr>))"
    using componentDidUpdate_crd_lookup [of samplePrevProps
        "sampleProps\<lparr>p_resource := Some (3, sampleResource\<lparr>res_kind := ''Queue''\<rparr>)\<rparr>"
        2 sampleCSV 3 "sampleResource\<lparr>res_kind := ''Queue''\<rparr>" sampleKube
        "initial_state\<lparr>crd := Some sampleCRD\<rparr>"] g
    by (simp add: sampleProps_def samplePrevProps_def)
  from run 1 f 2 show ?thesis by (auto simp: initial_state_def)
qed

end
